theory Spec2Isabelle
  imports Main "HOL-Library.Char_ord" "HOL-Library.List_Lexorder" "HOL-Library.Multiset"
begin

section \<open>The recipe views: \<^verbatim>\<open>app/recipe/views.py\<close>\<close>

text \<open>
  The file holds two view classes over an object-relational mapper:
  \<^verbatim>\<open>RecipeViewSet\<close> (list, retrieve, create, update, delete and the extra action
  \<^verbatim>\<open>upload_image\<close>) and \<^verbatim>\<open>BaseRecipeAttrViewSet\<close> (list, update, delete) with its two
  bindings \<^verbatim>\<open>TagViewSet\<close> and \<^verbatim>\<open>IngredientViewSet\<close>. Each method is embedded as a HOL
  function of the same name. A table is a list of rows; a queryset is what the views
  build of it (rows, ordering, distinctness) and \<open>fetch\<close> says which lists the database
  may answer it with; an exception is the left summand of a result; the database is passed
  in and handed back where a method writes to it.
\<close>

subsection \<open>Python values the views compute with\<close>

datatype py_error = ValueError | Http404 | MultipleObjectsReturned

text \<open>
  A Python \<^verbatim>\<open>str\<close> is a sequence of Unicode code points. \<open>ascii\<close> writes one from a
  literal.
\<close>

type_synonym py_str = "nat list"

definition ascii :: "string \<Rightarrow> py_str" where
  "ascii s = map of_char s"

text \<open>
  What \<^verbatim>\<open>int\<close> takes from the interpreter it runs on: the limit on the number of digits
  of a literal (\<^verbatim>\<open>sys.get_int_max_str_digits()\<close>, 0 where there is none) and, for the
  code points from 127 on, the white space and the decimal digits of its Unicode
  database.
\<close>

record interpreter =
  max_str_digits :: nat
  unicode_space :: "nat \<Rightarrow> bool"
  unicode_decimal :: "nat \<Rightarrow> nat option"

text \<open>
  \<^verbatim>\<open>str.split(',')\<close> with an explicit separator: every separator cuts, so a string with
  \<open>n\<close> separators gives \<open>n + 1\<close> pieces, empty pieces included, and the empty string
  gives one empty piece.
\<close>

fun py_split :: "nat \<Rightarrow> py_str \<Rightarrow> py_str list" where
  "py_split sep [] = [[]]"
| "py_split sep (c # cs) =
     (if c = sep then [] # py_split sep cs
      else (case py_split sep cs of
              [] \<Rightarrow> [[c]]
            | t # ts \<Rightarrow> (c # t) # ts))"

text \<open>
  \<^verbatim>\<open>int(s)\<close> on a \<^verbatim>\<open>str\<close>, base ten. A code point below 127 is kept; one from 127 on
  becomes a blank if it is white space, the ASCII digit of its value if it is a decimal
  digit, and \<^verbatim>\<open>?\<close> otherwise. Of the result, the white space \<^verbatim>\<open>\t\n\v\f\r\<close> and blank
  (9 to 13 and 32) around the literal is skipped, one sign is allowed, and the digits may
  be grouped by single underscores that neither start nor end the literal. Anything else,
  and a literal with more digits than the interpreter's limit (which never applies up to
  640 digits), raises \<^verbatim>\<open>ValueError\<close>.
\<close>

definition to_ascii :: "interpreter \<Rightarrow> nat \<Rightarrow> nat" where
  "to_ascii py c =
     (if c < 127 then c
      else if unicode_space py c then 32
      else (case unicode_decimal py c of
              Some d \<Rightarrow> if d < 10 then 48 + d else 63
            | None \<Rightarrow> 63))"

definition is_space :: "nat \<Rightarrow> bool" where
  "is_space c = ((9 \<le> c \<and> c \<le> 13) \<or> c = 32)"

definition is_digit :: "nat \<Rightarrow> bool" where
  "is_digit c = (48 \<le> c \<and> c \<le> 57)"

definition digit_value :: "nat \<Rightarrow> int" where
  "digit_value c = int c - 48"

definition is_literal_char :: "nat \<Rightarrow> bool" where
  "is_literal_char c = (is_digit c \<or> c = 95)"

fun underscores_ok :: "py_str \<Rightarrow> bool" where
  "underscores_ok [] = True"
| "underscores_ok [c] = (c \<noteq> 95)"
| "underscores_ok (c # d # cs) = (\<not> (c = 95 \<and> d = 95) \<and> underscores_ok (d # cs))"

definition digits_to_int :: "py_str \<Rightarrow> int" where
  "digits_to_int ds = foldl (\<lambda>acc c. 10 * acc + digit_value c) 0 ds"

definition exceeds_limit :: "interpreter \<Rightarrow> nat \<Rightarrow> bool" where
  "exceeds_limit py digits =
     (640 < digits \<and> 0 < max_str_digits py \<and> max_str_digits py < digits)"

definition py_int :: "interpreter \<Rightarrow> py_str \<Rightarrow> py_error + int" where
  "py_int py s =
     (let s1 = dropWhile is_space (map (to_ascii py) s);
          neg = (case s1 of [] \<Rightarrow> False | c # _ \<Rightarrow> c = 45);
          s2 = (case s1 of [] \<Rightarrow> []
                | c # cs \<Rightarrow> if c = 43 \<or> c = 45 then cs else s1);
          body = takeWhile is_literal_char s2;
          rest = dropWhile is_space (dropWhile is_literal_char s2);
          digits = filter is_digit body
      in if body = [] \<or> hd body = 95 \<or> \<not> underscores_ok body \<or> rest \<noteq> []
         then Inl ValueError
         else if exceeds_limit py (length digits) then Inl ValueError
         else (let v = digits_to_int digits
               in Inr (if neg then - v else v)))"

text \<open>\<^verbatim>\<open>bool(n)\<close> on an integer.\<close>

definition py_bool :: "int \<Rightarrow> bool" where
  "py_bool n = (n \<noteq> 0)"

text \<open>
  A list comprehension \<^verbatim>\<open>[f(x) for x in xs]\<close> whose \<^verbatim>\<open>f\<close> may raise: the first
  exception, in list order, ends it.
\<close>

fun map_raising :: "('a \<Rightarrow> py_error + 'b) \<Rightarrow> 'a list \<Rightarrow> py_error + 'b list" where
  "map_raising f [] = Inr []"
| "map_raising f (x # xs) =
     (case f x of
        Inl e \<Rightarrow> Inl e
      | Inr y \<Rightarrow> (case map_raising f xs of Inl e \<Rightarrow> Inl e | Inr ys \<Rightarrow> Inr (y # ys)))"

subsection \<open>The entities and the request\<close>

type_synonym user = nat

text \<open>
  Modelled from the spec: the entities of \<^verbatim>\<open>core/models.py\<close>, which the views import
  and which is not part of the source tree. A recipe belongs to exactly one user and has
  many tags and many ingredients (many-to-many); a tag or an ingredient belongs to exactly
  one user and is referenced by zero or more recipes. The two many-to-many link tables
  are kept with the recipe: \<open>r_tags\<close> and \<open>r_ingredients\<close> list the identifiers a
  recipe is linked to, one entry per link. The other columns of a recipe are \<open>r_rest\<close>.
  Nothing says that names are unique.
\<close>

record 'a recipe =
  r_id :: int
  r_user :: user
  r_tags :: "int list"
  r_ingredients :: "int list"
  r_rest :: 'a

record attr =
  a_id :: int
  a_user :: user
  a_name :: string

record 'a database =
  recipe_objects :: "'a recipe list"
  tag_objects :: "attr list"
  ingredient_objects :: "attr list"

text \<open>
  What a view reads of the request: the authenticated user, the query parameters (the
  value \<^verbatim>\<open>query_params.get\<close> finds for a key, if any) and the submitted payload.
\<close>

record 'd request =
  user :: user
  query_params :: "string \<rightharpoonup> py_str"
  data :: 'd

subsection \<open>Querysets\<close>

text \<open>
  A queryset is lazy: the views only build it. It holds the rows its filters and joins
  select, in no order, the key of \<^verbatim>\<open>order_by\<close> if there is one, and whether \<^verbatim>\<open>distinct\<close>
  was asked for.
\<close>

record ('r, 'k) query_set =
  qs_rows :: "'r list"
  qs_order :: "('r \<Rightarrow> 'k) option"
  qs_distinct :: bool

text \<open>\<^verbatim>\<open>Model.objects.all()\<close>: every row of the table.\<close>

definition objects_all :: "'r list \<Rightarrow> ('r, 'k) query_set" where
  "objects_all table = \<lparr>qs_rows = table, qs_order = None, qs_distinct = False\<rparr>"

text \<open>\<^verbatim>\<open>filter(field=value)\<close> on a column of the row itself.\<close>

definition filter_rows :: "('r \<Rightarrow> bool) \<Rightarrow> ('r, 'k) query_set \<Rightarrow> ('r, 'k) query_set" where
  "filter_rows P qs = qs\<lparr>qs_rows := filter P (qs_rows qs)\<rparr>"

text \<open>
  \<^verbatim>\<open>filter(tags__id__in=ids)\<close> joins the recipes with one of their link tables and keeps
  the links whose identifier is listed: a recipe comes out once per matching link.
\<close>

definition filter_id_in ::
    "('r \<Rightarrow> int list) \<Rightarrow> int list \<Rightarrow> ('r, 'k) query_set \<Rightarrow> ('r, 'k) query_set" where
  "filter_id_in rel ids qs =
     qs\<lparr>qs_rows :=
          concat (map (\<lambda>r. map (\<lambda>_. r) (filter (\<lambda>t. t \<in> set ids) (rel r))) (qs_rows qs))\<rparr>"

text \<open>
  \<^verbatim>\<open>filter(recipe__isnull=False)\<close> on tags or ingredients joins them with the link table
  from the other side: a row comes out once per recipe linked to it.
\<close>

definition filter_recipe_notnull ::
    "('a recipe \<Rightarrow> int list) \<Rightarrow> 'a recipe list \<Rightarrow> (attr, 'k) query_set \<Rightarrow> (attr, 'k) query_set" where
  "filter_recipe_notnull rel rs qs =
     qs\<lparr>qs_rows :=
          concat (map (\<lambda>a. map (\<lambda>_. a) (filter (\<lambda>t. t = a_id a) (concat (map rel rs))))
                    (qs_rows qs))\<rparr>"

text \<open>\<^verbatim>\<open>order_by('-key')\<close> and \<^verbatim>\<open>distinct()\<close>.\<close>

definition order_by_desc :: "('r \<Rightarrow> 'k) \<Rightarrow> ('r, 'k) query_set \<Rightarrow> ('r, 'k) query_set" where
  "order_by_desc key qs = qs\<lparr>qs_order := Some key\<rparr>"

definition distinct_rows :: "('r, 'k) query_set \<Rightarrow> ('r, 'k) query_set" where
  "distinct_rows qs = qs\<lparr>qs_distinct := True\<rparr>"

text \<open>
  The rows the database answers a queryset with: equal rows once if \<^verbatim>\<open>distinct\<close> was
  asked for, every row as often as it was selected otherwise.
\<close>

definition selected :: "('r, 'k) query_set \<Rightarrow> 'r list" where
  "selected qs = (if qs_distinct qs then remdups (qs_rows qs) else qs_rows qs)"

text \<open>
  Evaluating a queryset: the database may answer with any arrangement of the selected
  rows that descends in the ordering key. It fixes no order among rows with equal keys,
  and none at all without \<^verbatim>\<open>order_by\<close>.
\<close>

definition fetch :: "('r, 'k::linorder) query_set \<Rightarrow> 'r list \<Rightarrow> bool" where
  "fetch qs out =
     (mset out = mset (selected qs) \<and>
      (case qs_order qs of None \<Rightarrow> True | Some key \<Rightarrow> sorted_wrt (\<ge>) (map key out)))"

subsection \<open>\<^verbatim>\<open>RecipeViewSet\<close>\<close>

definition params_to_int :: "interpreter \<Rightarrow> py_str \<Rightarrow> py_error + int list" where
  "params_to_int py qs = map_raising (py_int py) (py_split 44 qs)"

text \<open>
  \<^verbatim>\<open>if tags:\<close> is false for a missing parameter and for an empty one; then the
  parameter is not read any further.
\<close>

definition get_queryset ::
    "interpreter \<Rightarrow> 'd request \<Rightarrow> 'a database \<Rightarrow> py_error + ('a recipe, int) query_set" where
  "get_queryset py rq db =
     (let tags = query_params rq ''tags'';
          ingredients = query_params rq ''ingredients'';
          qs = objects_all (recipe_objects db)
      in case (case tags of
                 None \<Rightarrow> Inr qs
               | Some t \<Rightarrow>
                   if t = [] then Inr qs
                   else (case params_to_int py t of
                           Inl e \<Rightarrow> Inl e
                         | Inr tag_ids \<Rightarrow> Inr (filter_id_in r_tags tag_ids qs))) of
           Inl e \<Rightarrow> Inl e
         | Inr qs1 \<Rightarrow>
             (case (case ingredients of
                      None \<Rightarrow> Inr qs1
                    | Some i \<Rightarrow>
                        if i = [] then Inr qs1
                        else (case params_to_int py i of
                                Inl e \<Rightarrow> Inl e
                              | Inr ingredient_ids \<Rightarrow>
                                  Inr (filter_id_in r_ingredients ingredient_ids qs1))) of
                Inl e \<Rightarrow> Inl e
              | Inr qs2 \<Rightarrow>
                  Inr (distinct_rows
                         (order_by_desc r_id (filter_rows (\<lambda>r. r_user r = user rq) qs2)))))"

datatype serializer_class = RecipeSerializer | RecipeDetailSerializer | RecipeImageSerializer

definition get_serializer_class :: "string \<Rightarrow> serializer_class" where
  "get_serializer_class action =
     (if action = ''list'' then RecipeSerializer
      else if action = ''upload_image'' then RecipeImageSerializer
      else RecipeDetailSerializer)"

text \<open>
  The serializers of \<^verbatim>\<open>recipe/serializers.py\<close> are not part of the source tree; the views
  are embedded over any serializer. A serializer validates a payload into a dictionary of
  fields or into its field errors, writes a new or a changed recipe to the database and
  returns it, and renders a recipe. A dictionary entry is the value of a field or a
  reference to a user.
\<close>

datatype 'v field = UserRef user | Field 'v

record ('d, 'e, 'v, 'a, 'b) serializer =
  run_validation :: "'d \<Rightarrow> 'e + (string \<rightharpoonup> 'v field)"
  create :: "(string \<rightharpoonup> 'v field) \<Rightarrow> 'a database \<Rightarrow> 'a database \<times> 'a recipe"
  update :: "'a recipe \<Rightarrow> (string \<rightharpoonup> 'v field) \<Rightarrow> 'a database \<Rightarrow> 'a database \<times> 'a recipe"
  to_representation :: "'a recipe \<Rightarrow> 'b"

text \<open>
  The framework's \<^verbatim>\<open>serializer.save(**kwargs)\<close>, which the views call: the keyword
  arguments are laid over the validated fields (\<^verbatim>\<open>{**validated_data, **kwargs}\<close>), and
  the result goes to \<^verbatim>\<open>update\<close> when the serializer was built on an instance, to
  \<^verbatim>\<open>create\<close> otherwise.
\<close>

definition save ::
    "('d, 'e, 'v, 'a, 'b) serializer \<Rightarrow> 'a recipe option \<Rightarrow> (string \<rightharpoonup> 'v field) \<Rightarrow>
     (string \<rightharpoonup> 'v field) \<Rightarrow> 'a database \<Rightarrow> 'a database \<times> 'a recipe" where
  "save serializer instance validated_data kwargs db =
     (let validated = validated_data ++ kwargs
      in case instance of
           Some r \<Rightarrow> update serializer r validated db
         | None \<Rightarrow> create serializer validated db)"

text \<open>
  \<^verbatim>\<open>perform_create\<close> is called by the framework's create action with a serializer that
  has already validated the payload into \<open>validated_data\<close>.
\<close>

definition perform_create ::
    "'d request \<Rightarrow> ('d, 'e, 'v, 'a, 'b) serializer \<Rightarrow> (string \<rightharpoonup> 'v field) \<Rightarrow>
     'a database \<Rightarrow> 'a database \<times> 'a recipe" where
  "perform_create rq serializer validated_data db =
     save serializer None validated_data [''user'' \<mapsto> UserRef (user rq)] db"

text \<open>
  The framework's \<^verbatim>\<open>get_object()\<close>, inherited unchanged: the one row of
  \<^verbatim>\<open>get_queryset()\<close> with the primary key of the URL, \<^verbatim>\<open>Http404\<close> when there is none.
  Which row it is does not depend on the order of the answer.
\<close>

definition get_object ::
    "interpreter \<Rightarrow> 'd request \<Rightarrow> int \<Rightarrow> 'a database \<Rightarrow> py_error + 'a recipe" where
  "get_object py rq pk db =
     (case get_queryset py rq db of
        Inl e \<Rightarrow> Inl e
      | Inr qs \<Rightarrow>
          (case selected (filter_rows (\<lambda>r. r_id r = pk) qs) of
             [] \<Rightarrow> Inl Http404
           | [r] \<Rightarrow> Inr r
           | _ \<Rightarrow> Inl MultipleObjectsReturned))"

datatype ('b, 'e) body = Data 'b | Errors 'e

record ('b, 'e) response =
  body :: "('b, 'e) body"
  status :: nat

definition HTTP_200_OK :: nat where
  "HTTP_200_OK = 200"

definition HTTP_400_BAD_REQUEST :: nat where
  "HTTP_400_BAD_REQUEST = 400"

text \<open>
  \<^verbatim>\<open>upload_image\<close>: the serializer is the one \<^verbatim>\<open>get_serializer_class\<close> picks for the
  action \<^verbatim>\<open>upload_image\<close>, built on the recipe and the request's payload. The result is
  the database after the call and the response, or the exception that left the method.
\<close>

definition upload_image ::
    "interpreter \<Rightarrow> (serializer_class \<Rightarrow> ('d, 'e, 'v, 'a, 'b) serializer) \<Rightarrow> 'd request \<Rightarrow>
     int \<Rightarrow> 'a database \<Rightarrow> 'a database \<times> (py_error + ('b, 'e) response)" where
  "upload_image py serializers rq pk db =
     (case get_object py rq pk db of
        Inl e \<Rightarrow> (db, Inl e)
      | Inr recipe \<Rightarrow>
          (let serializer = serializers (get_serializer_class ''upload_image'')
           in case run_validation serializer (data rq) of
                Inr validated_data \<Rightarrow>
                  (let (db', instance) = save serializer (Some recipe) validated_data Map.empty db
                   in (db', Inr \<lparr>body = Data (to_representation serializer instance),
                                  status = HTTP_200_OK\<rparr>))
              | Inl errors \<Rightarrow>
                  (db, Inr \<lparr>body = Errors errors, status = HTTP_400_BAD_REQUEST\<rparr>)))"

subsection \<open>\<^verbatim>\<open>BaseRecipeAttrViewSet\<close> and its two bindings\<close>

text \<open>
  \<^verbatim>\<open>TagViewSet\<close> and \<^verbatim>\<open>IngredientViewSet\<close> set the class attribute \<^verbatim>\<open>queryset\<close>; the
  reverse relation \<^verbatim>\<open>recipe\<close> of a row goes through the link table of its own kind.
\<close>

datatype attr_viewset = TagViewSet | IngredientViewSet

fun queryset :: "attr_viewset \<Rightarrow> 'a database \<Rightarrow> (attr, string) query_set" where
  "queryset TagViewSet db = objects_all (tag_objects db)"
| "queryset IngredientViewSet db = objects_all (ingredient_objects db)"

fun recipe_links :: "attr_viewset \<Rightarrow> 'a recipe \<Rightarrow> int list" where
  "recipe_links TagViewSet = r_tags"
| "recipe_links IngredientViewSet = r_ingredients"

text \<open>
  The local variable \<^verbatim>\<open>assigned_only\<close>:
  \<^verbatim>\<open>bool(int(query_params.get('assigned_only', 0)))\<close>. The lookup gives the integer 0 for
  a missing parameter and the parameter's string otherwise; \<^verbatim>\<open>int\<close> leaves the integer
  as it is and may raise on the string.
\<close>

definition assigned_only :: "interpreter \<Rightarrow> 'd request \<Rightarrow> py_error + bool" where
  "assigned_only py rq =
     (case (case query_params rq ''assigned_only'' of
              None \<Rightarrow> Inr 0
            | Some s \<Rightarrow> py_int py s) of
        Inl e \<Rightarrow> Inl e
      | Inr n \<Rightarrow> Inr (py_bool n))"

definition attr_get_queryset ::
    "interpreter \<Rightarrow> attr_viewset \<Rightarrow> 'd request \<Rightarrow> 'a database \<Rightarrow>
     py_error + (attr, string) query_set" where
  "attr_get_queryset py self rq db =
     (case assigned_only py rq of
        Inl e \<Rightarrow> Inl e
      | Inr flag \<Rightarrow>
          (let qs = queryset self db;
               qs1 = (if flag
                      then filter_recipe_notnull (recipe_links self) (recipe_objects db) qs
                      else qs)
           in Inr (distinct_rows
                     (order_by_desc a_name (filter_rows (\<lambda>a. a_user a = user rq) qs1)))))"

subsection \<open>What the client sees of an exception\<close>

text \<open>
  The views catch nothing themselves. Of the exceptions above the framework's handler
  answers \<^verbatim>\<open>Http404\<close> with status 404; it re-raises any exception it does not know, and
  the server answers that with status 500. A list action that got its queryset answers
  with status 200.
\<close>

fun status_of_exception :: "py_error \<Rightarrow> nat" where
  "status_of_exception Http404 = 404"
| "status_of_exception ValueError = 500"
| "status_of_exception MultipleObjectsReturned = 500"

definition list_status :: "py_error + ('r, 'k) query_set \<Rightarrow> nat" where
  "list_status result =
     (case result of Inl e \<Rightarrow> status_of_exception e | Inr qs \<Rightarrow> HTTP_200_OK)"

definition is_client_error :: "nat \<Rightarrow> bool" where
  "is_client_error st = (400 \<le> st \<and> st < 500)"

subsection \<open>The notions the specification states the views with\<close>

text \<open>
  The specification speaks of the identifier list a filter parameter holds, of a recipe
  linked to one of the listed identifiers, of a parameter with a token that is no integer,
  of a tag or ingredient referenced by a recipe, and of integer-formatted strings. The
  theorems below compare the views with these notions.

  A filter parameter that is missing or empty asks for nothing; otherwise it is the list
  of its tokens, separated by commas, each read as an integer by \<^verbatim>\<open>params_to_int\<close>.
\<close>

definition id_filter :: "interpreter \<Rightarrow> py_str option \<Rightarrow> py_error + int list option" where
  "id_filter py p =
     (case p of
        None \<Rightarrow> Inr None
      | Some s \<Rightarrow>
          if s = [] then Inr None
          else (case params_to_int py s of Inl e \<Rightarrow> Inl e | Inr ids \<Rightarrow> Inr (Some ids)))"

definition linked_to :: "int list option \<Rightarrow> int list \<Rightarrow> bool" where
  "linked_to wanted links =
     (case wanted of None \<Rightarrow> True | Some ids \<Rightarrow> list_ex (\<lambda>t. t \<in> set ids) links)"

definition non_integer_token :: "interpreter \<Rightarrow> py_str \<Rightarrow> bool" where
  "non_integer_token py s = list_ex (\<lambda>t. py_int py t = Inl ValueError) (py_split 44 s)"

definition malformed :: "interpreter \<Rightarrow> py_str option \<Rightarrow> bool" where
  "malformed py p =
     (case p of None \<Rightarrow> False | Some s \<Rightarrow> s \<noteq> [] \<and> non_integer_token py s)"

definition referenced :: "attr_viewset \<Rightarrow> 'a database \<Rightarrow> attr \<Rightarrow> bool" where
  "referenced self db a =
     list_ex (\<lambda>r. a_id a \<in> set (recipe_links self r)) (recipe_objects db)"

text \<open>
  The decimal numeral of an integer, as \<^verbatim>\<open>str(n)\<close> writes it: a minus sign for a
  negative one, then the digits without leading zeros.
\<close>

fun decimal_digits :: "nat \<Rightarrow> py_str" where
  "decimal_digits n =
     (if n < 10 then [48 + n] else decimal_digits (n div 10) @ [48 + n mod 10])"

declare decimal_digits.simps [simp del]

definition numeral_of :: "int \<Rightarrow> py_str" where
  "numeral_of n = (if n < 0 then 45 # decimal_digits (nat (- n)) else decimal_digits (nat n))"

subsection \<open>An interpreter, a small database, requests and serializers to run the views on\<close>

text \<open>
  CPython 3.11 with its default settings: literals of up to 4300 digits, and the white
  space and decimal digits of Unicode 14.0 (every script has its ten digits in a row;
  the list gives the code points of the zeros).
\<close>

definition digit_zeros :: "nat list" where
  "digit_zeros =
     [1632, 1776, 1984, 2406, 2534, 2662, 2790, 2918, 3046, 3174, 3302, 3430, 3558, 3664,
      3792, 3872, 4160, 4240, 6112, 6160, 6470, 6608, 6784, 6800, 6992, 7088, 7232, 7248,
      42528, 43216, 43264, 43472, 43504, 43600, 44016, 65296, 66720, 68912, 69734, 69872,
      69942, 70096, 70384, 70736, 70864, 71248, 71360, 71472, 71904, 72016, 72784, 73040,
      73120, 92768, 92864, 93008, 120782, 120792, 120802, 120812, 120822, 123200, 123632,
      125264, 130032]"

definition cpython :: interpreter where
  "cpython =
     \<lparr>max_str_digits = 4300,
      unicode_space =
        (\<lambda>c. c \<in> set [133, 160, 5760, 8192, 8193, 8194, 8195, 8196, 8197, 8198, 8199, 8200,
                       8201, 8202, 8232, 8233, 8239, 8287, 12288]),
      unicode_decimal =
        (\<lambda>c. case find (\<lambda>z. z \<le> c \<and> c < z + 10) digit_zeros of
               Some z \<Rightarrow> Some (c - z)
             | None \<Rightarrow> None)\<rparr>"

definition soup :: "string recipe" where
  "soup = \<lparr>r_id = 1, r_user = 1, r_tags = [1, 2], r_ingredients = [1], r_rest = ''soup.png''\<rparr>"

definition cake :: "string recipe" where
  "cake = \<lparr>r_id = 2, r_user = 1, r_tags = [2], r_ingredients = [], r_rest = ''cake.png''\<rparr>"

definition stew :: "string recipe" where
  "stew = \<lparr>r_id = 3, r_user = 2, r_tags = [3], r_ingredients = [2], r_rest = []\<rparr>"

definition vegan :: attr where
  "vegan = \<lparr>a_id = 1, a_user = 1, a_name = ''vegan''\<rparr>"

definition dinner :: attr where
  "dinner = \<lparr>a_id = 2, a_user = 1, a_name = ''dinner''\<rparr>"

definition spicy :: attr where
  "spicy = \<lparr>a_id = 3, a_user = 2, a_name = ''spicy''\<rparr>"

definition unused :: attr where
  "unused = \<lparr>a_id = 4, a_user = 1, a_name = ''unused''\<rparr>"

definition salt :: attr where
  "salt = \<lparr>a_id = 1, a_user = 1, a_name = ''salt''\<rparr>"

definition pepper :: attr where
  "pepper = \<lparr>a_id = 2, a_user = 2, a_name = ''pepper''\<rparr>"

definition kitchen :: "string database" where
  "kitchen =
     \<lparr>recipe_objects = [soup, cake, stew],
      tag_objects = [vegan, dinner, spicy, unused],
      ingredient_objects = [salt, pepper]\<rparr>"

text \<open>A database in which user 1 has two tags of the same name.\<close>

definition nut_a :: attr where
  "nut_a = \<lparr>a_id = 1, a_user = 1, a_name = ''nut''\<rparr>"

definition nut_b :: attr where
  "nut_b = \<lparr>a_id = 2, a_user = 1, a_name = ''nut''\<rparr>"

definition pantry :: "string database" where
  "pantry = \<lparr>recipe_objects = [], tag_objects = [nut_a, nut_b], ingredient_objects = []\<rparr>"

definition get_by :: "user \<Rightarrow> (string \<times> py_str) list \<Rightarrow> string option request" where
  "get_by u params = \<lparr>user = u, query_params = map_of params, data = None\<rparr>"

definition post_by :: "user \<Rightarrow> string option \<Rightarrow> string option request" where
  "post_by u payload = \<lparr>user = u, query_params = Map.empty, data = payload\<rparr>"

text \<open>
  A serializer with one writable field, \<^verbatim>\<open>image\<close>, kept in \<open>r_rest\<close>: a payload without
  a file is refused, \<^verbatim>\<open>update\<close> stores the file name and writes the row back,
  \<^verbatim>\<open>create\<close> appends a row owned by the user it is given.
\<close>

definition write_back :: "'a recipe \<Rightarrow> 'a database \<Rightarrow> 'a database" where
  "write_back r db =
     db\<lparr>recipe_objects := map (\<lambda>x. if r_id x = r_id r then r else x) (recipe_objects db)\<rparr>"

definition image_of :: "(string \<rightharpoonup> string field) \<Rightarrow> string \<Rightarrow> string" where
  "image_of entries old = (case entries ''image'' of Some (Field f) \<Rightarrow> f | _ \<Rightarrow> old)"

definition owner_of :: "(string \<rightharpoonup> string field) \<Rightarrow> user" where
  "owner_of entries = (case entries ''user'' of Some (UserRef u) \<Rightarrow> u | _ \<Rightarrow> 0)"

definition image_serializer ::
    "(string option, (string \<times> string list) list, string, string, int \<times> string) serializer" where
  "image_serializer =
     \<lparr>run_validation =
        (\<lambda>d. case d of
               None \<Rightarrow> Inl [(''image'', [''No file was submitted.''])]
             | Some f \<Rightarrow> Inr [''image'' \<mapsto> Field f]),
      create =
        (\<lambda>entries db.
           (let r = \<lparr>r_id = int (length (recipe_objects db)) + 1, r_user = owner_of entries,
                     r_tags = [], r_ingredients = [], r_rest = image_of entries []\<rparr>
            in (db\<lparr>recipe_objects := recipe_objects db @ [r]\<rparr>, r))),
      update =
        (\<lambda>r entries db.
           (let r' = r\<lparr>r_rest := image_of entries (r_rest r)\<rparr> in (write_back r' db, r'))),
      to_representation = (\<lambda>r. (r_id r, r_rest r))\<rparr>"

section \<open>Properties of querysets\<close>

lemma qs_filter_rows [simp]:
  "qs_rows (filter_rows P qs) = filter P (qs_rows qs)"
  "qs_order (filter_rows P qs) = qs_order qs"
  "qs_distinct (filter_rows P qs) = qs_distinct qs"
  by (simp_all add: filter_rows_def)

lemma qs_order_by_desc [simp]:
  "qs_rows (order_by_desc key qs) = qs_rows qs"
  "qs_order (order_by_desc key qs) = Some key"
  "qs_distinct (order_by_desc key qs) = qs_distinct qs"
  by (simp_all add: order_by_desc_def)

lemma qs_distinct_rows [simp]:
  "qs_rows (distinct_rows qs) = qs_rows qs"
  "qs_order (distinct_rows qs) = qs_order qs"
  "qs_distinct (distinct_rows qs) = True"
  by (simp_all add: distinct_rows_def)

lemma qs_objects_all [simp]: "qs_rows (objects_all table) = table"
  by (simp add: objects_all_def)

lemma set_filter_id_in:
  "set (qs_rows (filter_id_in rel ids qs))
     = {r \<in> set (qs_rows qs). \<exists>t \<in> set (rel r). t \<in> set ids}"
  by (auto simp: filter_id_in_def)

lemma set_filter_recipe_notnull:
  "set (qs_rows (filter_recipe_notnull rel rs qs))
     = {a \<in> set (qs_rows qs). \<exists>r \<in> set rs. a_id a \<in> set (rel r)}"
  by (auto simp: filter_recipe_notnull_def)

lemma set_id_filtered:
  "set (qs_rows ((case T of None \<Rightarrow> id | Some ids \<Rightarrow> filter_id_in rel ids) qs))
     = {r \<in> set (qs_rows qs). linked_to T (rel r)}"
  by (cases T) (auto simp: set_filter_id_in linked_to_def list_ex_iff)

lemma set_selected: "set (selected qs) = set (qs_rows qs)"
  by (simp add: selected_def)

text \<open>What every answer of the database has in common.\<close>

lemma fetch_set: "fetch qs out \<Longrightarrow> set out = set (qs_rows qs)"
  by (metis fetch_def mset_eq_setD set_selected)

lemma fetch_distinct: "fetch qs out \<Longrightarrow> qs_distinct qs \<Longrightarrow> distinct out"
proof -
  assume "fetch qs out" and "qs_distinct qs"
  then have "mset out = mset (remdups (qs_rows qs))"
    by (simp add: fetch_def selected_def)
  then show ?thesis
    using distinct_remdups mset_eq_imp_distinct_iff by blast
qed

lemma fetch_sorted:
  "fetch qs out \<Longrightarrow> qs_order qs = Some key \<Longrightarrow> sorted_wrt (\<ge>) (map key out)"
  by (simp add: fetch_def)

text \<open>The database always has an answer.\<close>

lemma desc_sorted: "sorted_wrt (\<ge>) (map key (rev (sort_key key xs)))"
proof -
  have "sorted (map key (sort_key key xs))" by simp
  then show ?thesis
    by (simp add: rev_map [symmetric] sorted_wrt_rev del: sorted_sort_key)
qed

lemma fetch_exists: "\<exists>out. fetch qs out"
proof (cases "qs_order qs")
  case None
  then have "fetch qs (selected qs)" by (simp add: fetch_def)
  then show ?thesis ..
next
  case (Some key)
  then have "fetch qs (rev (sort_key key (selected qs)))"
    by (simp add: fetch_def desc_sorted)
  then show ?thesis ..
qed

text \<open>
  Where the ordering key tells the selected rows apart and each is answered once, there
  is one answer only.
\<close>

lemma fetch_unique:
  assumes "fetch qs out" and "fetch qs out'"
      and "qs_order qs = Some key" and "qs_distinct qs"
      and "inj_on key (set (qs_rows qs))"
  shows "out = out'"
proof -
  have sets: "set out = set (qs_rows qs)" "set out' = set (qs_rows qs)"
    using assms(1,2) by (simp_all add: fetch_set)
  have "distinct out" "distinct out'"
    using assms(1,2,4) by (simp_all add: fetch_distinct)
  with sets assms(5) have d: "distinct (map key out)" "distinct (map key out')"
    by (simp_all add: distinct_map)
  have "sorted (rev (map key out))" "sorted (rev (map key out'))"
    using assms(1,2,3) by (simp_all add: fetch_sorted sorted_wrt_rev)
  moreover have "set (rev (map key out)) = set (rev (map key out'))"
    using sets by simp
  ultimately have "rev (map key out) = rev (map key out')"
    using d by (intro sorted_distinct_set_unique) simp_all
  then have "map key out = map key out'" by simp
  moreover have "inj_on key (set out \<union> set out')"
    using sets assms(5) by simp
  ultimately show ?thesis
    by (simp add: inj_on_map_eq_map)
qed

lemma distinct_ids:
  assumes "distinct rows" and "set rows \<subseteq> set table" and "distinct (map key table)"
  shows "distinct (map key rows)"
proof -
  from assms(3) have "inj_on key (set table)" by (simp add: distinct_map)
  then have "inj_on key (set rows)" using assms(2) by (rule inj_on_subset)
  with assms(1) show ?thesis by (simp add: distinct_map)
qed

lemma desc_distinct_strict:
  fixes xs :: "'k::linorder list"
  shows "sorted_wrt (\<ge>) xs \<Longrightarrow> distinct xs \<Longrightarrow> sorted_wrt (>) xs"
  by (induction xs) (auto simp: less_le)

section \<open>Properties of the conversions\<close>

lemma py_int_error: "py_int py s = Inl e \<Longrightarrow> e = ValueError"
  by (auto simp: py_int_def Let_def split: if_splits)

lemma map_raising_error: "map_raising f xs = Inl e \<Longrightarrow> \<exists>x \<in> set xs. f x = Inl e"
  by (induction xs) (auto split: sum.splits)

lemma map_raising_raises: "x \<in> set xs \<Longrightarrow> f x = Inl e \<Longrightarrow> \<exists>e'. map_raising f xs = Inl e'"
  by (induction xs) (auto split: sum.splits)

lemma map_raising_Inr:
  "map_raising f xs = Inr ys \<longleftrightarrow> list_all2 (\<lambda>x y. f x = Inr y) xs ys"
proof
  show "map_raising f xs = Inr ys \<Longrightarrow> list_all2 (\<lambda>x y. f x = Inr y) xs ys"
    by (induction xs arbitrary: ys) (auto split: sum.splits)
  show "list_all2 (\<lambda>x y. f x = Inr y) xs ys \<Longrightarrow> map_raising f xs = Inr ys"
    by (induction rule: list_all2_induct) simp_all
qed

text \<open>
  \<^verbatim>\<open>params_to_int\<close> returns the integers of the tokens, one for one, or raises
  \<^verbatim>\<open>ValueError\<close>; it raises exactly when \<^verbatim>\<open>int\<close> raises on some token.
\<close>

lemma params_to_int_ids:
  "params_to_int py s = Inr ids
     \<longleftrightarrow> list_all2 (\<lambda>t i. py_int py t = Inr i) (py_split 44 s) ids"
  by (simp add: params_to_int_def map_raising_Inr)

lemma params_to_int_error: "params_to_int py s = Inl e \<Longrightarrow> e = ValueError"
  unfolding params_to_int_def by (blast dest: map_raising_error py_int_error)

lemma params_to_int_raises: "non_integer_token py s \<Longrightarrow> params_to_int py s = Inl ValueError"
proof -
  assume "non_integer_token py s"
  then obtain t where "t \<in> set (py_split 44 s)" "py_int py t = Inl ValueError"
    by (auto simp: non_integer_token_def list_ex_iff)
  then obtain e where "params_to_int py s = Inl e"
    unfolding params_to_int_def by (blast dest: map_raising_raises)
  then show ?thesis by (simp add: params_to_int_error)
qed

lemma params_to_int_ok:
  "\<not> non_integer_token py s \<Longrightarrow> \<exists>ids. params_to_int py s = Inr ids"
proof (cases "params_to_int py s")
  case (Inl e)
  assume ok: "\<not> non_integer_token py s"
  from Inl obtain t where "t \<in> set (py_split 44 s)" "py_int py t = Inl e"
    unfolding params_to_int_def by (blast dest: map_raising_error)
  moreover from this have "e = ValueError" by (blast dest: py_int_error)
  ultimately have "non_integer_token py s"
    by (auto simp: non_integer_token_def list_ex_iff)
  with ok show ?thesis by simp
next
  case (Inr ids)
  then show ?thesis by blast
qed

lemma id_filter_raises: "malformed py p \<Longrightarrow> id_filter py p = Inl ValueError"
  by (auto simp: malformed_def id_filter_def params_to_int_raises split: option.splits)

lemma id_filter_error: "id_filter py p = Inl e \<Longrightarrow> e = ValueError"
  by (auto simp: id_filter_def params_to_int_error split: option.splits if_splits sum.splits)

text \<open>
  \<^verbatim>\<open>int\<close> reads the decimal numeral of every integer, short of the interpreter's limit on
  the number of digits.
\<close>

lemma decimal_digits_are_digits: "c \<in> set (decimal_digits n) \<Longrightarrow> 48 \<le> c \<and> c \<le> 57"
proof (induction n arbitrary: c rule: decimal_digits.induct)
  case (1 n)
  show ?case
  proof (cases "n < 10")
    case True
    with "1.prems" show ?thesis by (simp add: decimal_digits.simps [of n])
  next
    case False
    with "1.prems" have "c \<in> set (decimal_digits (n div 10)) \<or> c = 48 + n mod 10"
      by (auto simp: decimal_digits.simps [of n])
    with False "1.IH" show ?thesis by auto
  qed
qed

lemma decimal_digits_nonempty: "decimal_digits n \<noteq> []"
  by (simp add: decimal_digits.simps [of n])

lemma digits_to_int_snoc:
  "digits_to_int (ds @ [d]) = 10 * digits_to_int ds + digit_value d"
  by (simp add: digits_to_int_def)

lemma digits_to_int_decimal: "digits_to_int (decimal_digits n) = int n"
proof (induction n rule: decimal_digits.induct)
  case (1 n)
  show ?case
  proof (cases "n < 10")
    case True
    then show ?thesis
      by (simp add: decimal_digits.simps [of n] digits_to_int_def digit_value_def)
  next
    case False
    with "1.IH" have "digits_to_int (decimal_digits (n div 10)) = int (n div 10)" by simp
    with False show ?thesis
      by (simp add: decimal_digits.simps [of n] digits_to_int_snoc digit_value_def zdiv_int zmod_int)
  qed
qed

lemma underscores_ok_digits: "95 \<notin> set ds \<Longrightarrow> underscores_ok ds"
  by (induction ds rule: underscores_ok.induct) auto

lemma py_int_digits:
  assumes "ds \<noteq> []" and "\<forall>c \<in> set ds. 48 \<le> c \<and> c \<le> 57"
      and "\<not> exceeds_limit py (length ds)"
  shows "py_int py ds = Inr (digits_to_int ds)"
    and "py_int py (45 # ds) = Inr (- digits_to_int ds)"
    and "py_int py (43 # ds) = Inr (digits_to_int ds)"
proof -
  from assms(1) obtain d ds' where ds: "ds = d # ds'" by (cases ds) auto
  have same: "map (to_ascii py) ds = ds"
    using assms(2) by (intro map_idI) (auto simp: to_ascii_def)
  have lit: "takeWhile is_literal_char ds = ds" "dropWhile is_literal_char ds = []"
    using assms(2) by (auto simp: is_literal_char_def is_digit_def)
  have dig: "filter is_digit ds = ds"
    using assms(2) by (auto simp: is_digit_def)
  have nospace: "\<not> is_space d"
    using assms(2) ds by (auto simp: is_space_def)
  have "95 \<notin> set ds"
    using assms(2) by force
  then have us: "underscores_ok ds" "hd ds \<noteq> 95"
    using ds by (auto intro: underscores_ok_digits)
  have sign: "d \<noteq> 43" "d \<noteq> 45"
    using assms(2) ds by auto
  have drop: "dropWhile is_space ds = ds"
    using ds nospace by simp
  have neg: "(case ds of [] \<Rightarrow> False | c # _ \<Rightarrow> c = 45) = False"
    using ds sign by simp
  have s2: "(case ds of [] \<Rightarrow> [] | c # cs \<Rightarrow> if c = 43 \<or> c = 45 then cs else ds) = ds"
    using ds sign by simp
  show "py_int py ds = Inr (digits_to_int ds)"
    unfolding py_int_def Let_def same drop neg s2 lit dig
    using assms(1,3) us by simp
  have minus: "dropWhile is_space (map (to_ascii py) (45 # ds)) = 45 # ds"
    using same by (simp add: to_ascii_def is_space_def)
  have neg_minus: "(case 45 # ds of [] \<Rightarrow> False | c # _ \<Rightarrow> c = (45::nat)) = True"
    by simp
  have s2_minus:
    "(case 45 # ds of [] \<Rightarrow> [] | c # cs \<Rightarrow> if c = 43 \<or> c = (45::nat) then cs else 45 # ds) = ds"
    by simp
  show "py_int py (45 # ds) = Inr (- digits_to_int ds)"
    unfolding py_int_def Let_def minus neg_minus s2_minus lit dig
    using assms(1,3) us by simp
  have plus: "dropWhile is_space (map (to_ascii py) (43 # ds)) = 43 # ds"
    using same by (simp add: to_ascii_def is_space_def)
  have neg_plus: "(case 43 # ds of [] \<Rightarrow> False | c # _ \<Rightarrow> c = (45::nat)) = False"
    by simp
  have s2_plus:
    "(case 43 # ds of [] \<Rightarrow> [] | c # cs \<Rightarrow> if c = 43 \<or> c = (45::nat) then cs else 43 # ds) = ds"
    by simp
  show "py_int py (43 # ds) = Inr (digits_to_int ds)"
    unfolding py_int_def Let_def plus neg_plus s2_plus lit dig
    using assms(1,3) us by simp
qed

lemma py_int_numeral_of:
  assumes "\<not> exceeds_limit py (length (decimal_digits (nat \<bar>n\<bar>)))"
  shows "py_int py (numeral_of n) = Inr n"
proof (cases "n < 0")
  case True
  then have "py_int py (numeral_of n) = Inr (- digits_to_int (decimal_digits (nat (- n))))"
    using assms
    by (simp add: numeral_of_def py_int_digits(2) decimal_digits_nonempty
        decimal_digits_are_digits)
  with True show ?thesis by (simp add: digits_to_int_decimal)
next
  case False
  then have "py_int py (numeral_of n) = Inr (digits_to_int (decimal_digits (nat n)))"
    using assms
    by (simp add: numeral_of_def py_int_digits(1) decimal_digits_nonempty
        decimal_digits_are_digits)
  with False show ?thesis by (simp add: digits_to_int_decimal)
qed

text \<open>
  A parameter that is present but empty is never converted: \<^verbatim>\<open>if tags:\<close> is false for
  it, although its one token, the empty string, is no integer.
\<close>

lemma empty_parameter_ignored:
  "id_filter py (Some []) = Inr None \<and> non_integer_token py [] \<and> \<not> malformed py (Some [])"
  by (simp add: id_filter_def malformed_def non_integer_token_def py_int_def)

section \<open>The views, step by step\<close>

text \<open>
  \<^verbatim>\<open>RecipeViewSet.get_queryset\<close> reads the two filter parameters in turn, then scopes,
  orders and de-duplicates.
\<close>

lemma get_queryset_id_filter:
  "get_queryset py rq db =
     (case id_filter py (query_params rq ''tags'') of
        Inl e \<Rightarrow> Inl e
      | Inr T \<Rightarrow>
          (case id_filter py (query_params rq ''ingredients'') of
             Inl e \<Rightarrow> Inl e
           | Inr I \<Rightarrow>
               Inr (distinct_rows (order_by_desc r_id
                      (filter_rows (\<lambda>r. r_user r = user rq)
                         ((case I of None \<Rightarrow> id | Some ids \<Rightarrow> filter_id_in r_ingredients ids)
                            ((case T of None \<Rightarrow> id | Some ids \<Rightarrow> filter_id_in r_tags ids)
                               (objects_all (recipe_objects db)))))))))"
  by (simp add: get_queryset_def id_filter_def Let_def split: option.splits sum.splits)

lemma get_queryset_shape:
  assumes "get_queryset py rq db = Inr qs"
  shows "qs_order qs = Some r_id" and "qs_distinct qs"
    and "set (qs_rows qs) \<subseteq> {r \<in> set (recipe_objects db). r_user r = user rq}"
  using assms
  by (auto simp: get_queryset_id_filter set_id_filtered split: sum.splits)

lemma get_queryset_raises:
  assumes "malformed py (query_params rq ''tags'') \<or> malformed py (query_params rq ''ingredients'')"
  shows "get_queryset py rq db = Inl ValueError"
proof (cases "id_filter py (query_params rq ''tags'')")
  case (Inl e)
  then show ?thesis by (simp add: get_queryset_id_filter id_filter_error)
next
  case (Inr T)
  with assms have "malformed py (query_params rq ''ingredients'')"
    by (auto dest: id_filter_raises)
  then show ?thesis using Inr by (simp add: get_queryset_id_filter id_filter_raises)
qed

lemma attr_get_queryset_flag:
  "assigned_only py rq = Inr flag \<Longrightarrow>
   attr_get_queryset py self rq db
     = Inr (distinct_rows (order_by_desc a_name (filter_rows (\<lambda>a. a_user a = user rq)
              (if flag then filter_recipe_notnull (recipe_links self) (recipe_objects db)
                              (queryset self db)
               else queryset self db))))"
  by (simp add: attr_get_queryset_def)

lemma attr_get_queryset_shape:
  assumes "attr_get_queryset py self rq db = Inr qs"
  shows "qs_order qs = Some a_name" and "qs_distinct qs"
    and "set (qs_rows qs) \<subseteq> {a \<in> set (qs_rows (queryset self db)). a_user a = user rq}"
  using assms
  by (auto simp: attr_get_queryset_def Let_def set_filter_recipe_notnull
      split: sum.splits if_splits)

lemma upload_image_serializer: "get_serializer_class ''upload_image'' = RecipeImageSerializer"
  by (simp add: get_serializer_class_def)

lemma save_update:
  "save serializer (Some r) validated_data Map.empty db = update serializer r validated_data db"
  by (simp add: save_def)

text \<open>Unfolding the views on the small databases.\<close>

lemmas run_simps =
  get_queryset_def params_to_int_def py_int_def to_ascii_def ascii_def is_space_def
  is_digit_def is_literal_char_def digits_to_int_def digit_value_def exceeds_limit_def
  objects_all_def filter_rows_def filter_id_in_def order_by_desc_def distinct_rows_def
  selected_def fetch_def attr_get_queryset_def assigned_only_def filter_recipe_notnull_def
  py_bool_def kitchen_def soup_def cake_def stew_def vegan_def dinner_def spicy_def
  unused_def salt_def pepper_def pantry_def nut_a_def nut_b_def get_by_def post_by_def

lemma py_int_1: "py_int py (ascii ''1'') = Inr 1"
  by (simp add: run_simps)

lemma py_int_0: "py_int py (ascii ''0'') = Inr 0"
  by (simp add: run_simps)

text \<open>
  On CPython a no-break space around the literal is skipped and the digits of other
  scripts count, while the separators 28 to 31 are no white space for \<^verbatim>\<open>int\<close>.
\<close>

lemma py_int_beyond_ascii:
  "py_int cpython [160, 49] = Inr 1 \<and> py_int cpython [1633, 1634] = Inr 12 \<and>
   py_int cpython [28, 53] = Inl ValueError \<and> py_int cpython [49, 8203] = Inl ValueError"
  by (simp add: run_simps cpython_def digit_zeros_def)

text \<open>What every answer to a queryset holds, read off its rows.\<close>

lemma every_answer:
  assumes "res = Inr qs" and "set (qs_rows qs) = S"
  shows "\<exists>qs. res = Inr qs \<and> (\<exists>out. fetch qs out) \<and> (\<forall>out. fetch qs out \<longrightarrow> set out = S)"
proof -
  have "\<exists>out. fetch qs out" by (rule fetch_exists)
  moreover have "\<forall>out. fetch qs out \<longrightarrow> set out = S"
    using assms(2) by (auto dest: fetch_set)
  ultimately show ?thesis using assms(1) by blast
qed

lemma rows_assigned:
  "set (qs_rows (distinct_rows (order_by_desc a_name (filter_rows (\<lambda>a. a_user a = u)
               (filter_recipe_notnull (recipe_links self) (recipe_objects db)
                  (queryset self db))))))
     = {a \<in> set (qs_rows (queryset self db)). a_user a = u \<and> referenced self db a}"
  by (auto simp: set_filter_recipe_notnull referenced_def list_ex_iff)

lemma rows_all:
  "set (qs_rows (distinct_rows (order_by_desc a_name (filter_rows (\<lambda>a. a_user a = u)
               (queryset self db)))))
     = {a \<in> set (qs_rows (queryset self db)). a_user a = u}"
  by auto

section \<open>The claims\<close>

subsection \<open>Rows are scoped to the requesting user\<close>

text \<open>
  C1. For every authenticated requesting user, every queryset that
  \<^verbatim>\<open>RecipeViewSet.get_queryset\<close> or \<^verbatim>\<open>BaseRecipeAttrViewSet.get_queryset\<close> produces holds
  only rows whose user is the requesting user, whatever answer the database gives. Hence
  a recipe, tag or ingredient owned by another user \<open>u\<close> never appears in the requesting
  user's list.
\<close>

theorem scoped_to_user:
  "(get_queryset py rq db = Inr qs \<and> fetch qs out \<longrightarrow> (\<forall>r \<in> set out. r_user r = user rq)) \<and>
   (attr_get_queryset py self rq db = Inr qs' \<and> fetch qs' out' \<longrightarrow>
      (\<forall>a \<in> set out'. a_user a = user rq)) \<and>
   (get_queryset py rq db = Inr qs \<and> fetch qs out \<and> u \<noteq> user rq \<and> r_user r = u \<longrightarrow>
      r \<notin> set out) \<and>
   (attr_get_queryset py self rq db = Inr qs' \<and> fetch qs' out' \<and> u \<noteq> user rq \<and> a_user a = u \<longrightarrow>
      a \<notin> set out')"
proof -
  have recipes: "\<forall>x \<in> set out. r_user x = user rq"
    if "get_queryset py rq db = Inr qs" and "fetch qs out"
    using get_queryset_shape(3) [OF that(1)] fetch_set [OF that(2)] by blast
  have attrs: "\<forall>x \<in> set out'. a_user x = user rq"
    if "attr_get_queryset py self rq db = Inr qs'" and "fetch qs' out'"
    using attr_get_queryset_shape(3) [OF that(1)] fetch_set [OF that(2)] by blast
  from recipes attrs show ?thesis by blast
qed

text \<open>User 2 lists recipes and tags: the soup of user 1 is not among them.\<close>

theorem scoped_to_user_witness:
  "get_queryset cpython (get_by 2 []) kitchen
     = Inr \<lparr>qs_rows = [stew], qs_order = Some r_id, qs_distinct = True\<rparr> \<and>
   fetch \<lparr>qs_rows = [stew], qs_order = Some r_id, qs_distinct = True\<rparr> [stew] \<and>
   r_user stew = user (get_by 2 []) \<and>
   attr_get_queryset cpython TagViewSet (get_by 2 []) kitchen
     = Inr \<lparr>qs_rows = [spicy], qs_order = Some a_name, qs_distinct = True\<rparr> \<and>
   fetch \<lparr>qs_rows = [spicy], qs_order = Some a_name, qs_distinct = True\<rparr> [spicy] \<and>
   a_user spicy = user (get_by 2 []) \<and>
   r_user soup = 1 \<and> soup \<notin> set [stew]"
  using scoped_to_user [of cpython "get_by 2 []" kitchen
      "\<lparr>qs_rows = [stew], qs_order = Some r_id, qs_distinct = True\<rparr>" "[stew]" TagViewSet
      "\<lparr>qs_rows = [spicy], qs_order = Some a_name, qs_distinct = True\<rparr>" "[spicy]" 1 soup]
  by (simp add: run_simps)

subsection \<open>Filtering recipes by tags and ingredients\<close>

text \<open>
  C2. For every recipe list request whose \<^verbatim>\<open>tags\<close> and \<^verbatim>\<open>ingredients\<close> parameters, where
  given, hold comma-separated integer lists \<open>T\<close> and \<open>I\<close>, the request is answered, and
  every answer is exactly the requesting user's recipes linked to at least one identifier
  of \<open>T\<close> (if \<^verbatim>\<open>tags\<close> is given) and to at least one identifier of \<open>I\<close> (if
  \<^verbatim>\<open>ingredients\<close> is given), no row twice, even when it matches several listed
  identifiers. With unique primary keys no recipe identifier is returned twice either.
\<close>

theorem recipe_filters:
  assumes "id_filter py (query_params rq ''tags'') = Inr T"
      and "id_filter py (query_params rq ''ingredients'') = Inr I"
  shows "\<exists>qs. get_queryset py rq db = Inr qs \<and> (\<exists>out. fetch qs out) \<and>
           (\<forall>out. fetch qs out \<longrightarrow>
              set out = {r \<in> set (recipe_objects db).
                           r_user r = user rq \<and> linked_to T (r_tags r) \<and>
                           linked_to I (r_ingredients r)} \<and>
              distinct out \<and>
              (distinct (map r_id (recipe_objects db)) \<longrightarrow> distinct (map r_id out)))"
proof -
  let ?qs = "distinct_rows (order_by_desc r_id
               (filter_rows (\<lambda>r. r_user r = user rq)
                  ((case I of None \<Rightarrow> id | Some ids \<Rightarrow> filter_id_in r_ingredients ids)
                     ((case T of None \<Rightarrow> id | Some ids \<Rightarrow> filter_id_in r_tags ids)
                        (objects_all (recipe_objects db))))))"
  let ?wanted = "{r \<in> set (recipe_objects db).
                    r_user r = user rq \<and> linked_to T (r_tags r) \<and> linked_to I (r_ingredients r)}"
  have res: "get_queryset py rq db = Inr ?qs"
    using assms by (simp add: get_queryset_id_filter)
  have rows: "set (qs_rows ?qs) = ?wanted"
    by (auto simp: set_id_filtered)
  have "set out = ?wanted \<and> distinct out \<and>
        (distinct (map r_id (recipe_objects db)) \<longrightarrow> distinct (map r_id out))"
    if f: "fetch ?qs out" for out
  proof -
    have members: "set out = ?wanted"
      using fetch_set [OF f] rows by simp
    have once: "distinct out"
      using f by (rule fetch_distinct) simp
    have "distinct (map r_id out)" if "distinct (map r_id (recipe_objects db))"
      using once _ that by (rule distinct_ids) (use members in blast)
    with members once show ?thesis by blast
  qed
  with res fetch_exists [of ?qs] show ?thesis by blast
qed

text \<open>
  The soup carries both tags 1 and 2 and is listed once; with the ingredient filter added
  the cake, which has no ingredient, drops out. A no-break space before an identifier is
  skipped by \<^verbatim>\<open>int\<close>.
\<close>

theorem recipe_filters_witness:
  "id_filter cpython
       (query_params (get_by 1 [(''tags'', ascii ''1,2''), (''ingredients'', [160, 49])]) ''tags'')
     = Inr (Some [1, 2]) \<and>
   id_filter cpython
       (query_params (get_by 1 [(''tags'', ascii ''1,2''), (''ingredients'', [160, 49])])
          ''ingredients'')
     = Inr (Some [1]) \<and>
   get_queryset cpython (get_by 1 [(''tags'', ascii ''1,2''), (''ingredients'', [160, 49])]) kitchen
     = Inr \<lparr>qs_rows = [soup, soup], qs_order = Some r_id, qs_distinct = True\<rparr> \<and>
   fetch \<lparr>qs_rows = [soup, soup], qs_order = Some r_id, qs_distinct = True\<rparr> [soup] \<and>
   get_queryset cpython (get_by 1 [(''tags'', ascii ''1,2'')]) kitchen
     = Inr \<lparr>qs_rows = [soup, soup, cake], qs_order = Some r_id, qs_distinct = True\<rparr> \<and>
   fetch \<lparr>qs_rows = [soup, soup, cake], qs_order = Some r_id, qs_distinct = True\<rparr> [cake, soup] \<and>
   (\<exists>qs. get_queryset cpython
             (get_by 1 [(''tags'', ascii ''1,2''), (''ingredients'', [160, 49])]) kitchen = Inr qs \<and>
      (\<exists>out. fetch qs out) \<and>
      (\<forall>out. fetch qs out \<longrightarrow>
         set out = {r \<in> set (recipe_objects kitchen).
                      r_user r = user (get_by 1 [(''tags'', ascii ''1,2''), (''ingredients'', [160, 49])]) \<and>
                      linked_to (Some [1, 2]) (r_tags r) \<and>
                      linked_to (Some [1]) (r_ingredients r)} \<and>
         distinct out \<and> distinct (map r_id out)))"
proof -
  let ?rq = "get_by 1 [(''tags'', ascii ''1,2''), (''ingredients'', [160, 49])]"
  have t: "id_filter cpython (query_params ?rq ''tags'') = Inr (Some [1, 2])"
    by (simp add: id_filter_def run_simps)
  have i: "id_filter cpython (query_params ?rq ''ingredients'') = Inr (Some [1])"
    by (simp add: id_filter_def run_simps cpython_def)
  have both: "get_queryset cpython ?rq kitchen
     = Inr \<lparr>qs_rows = [soup, soup], qs_order = Some r_id, qs_distinct = True\<rparr>"
    by (simp add: run_simps cpython_def)
  have f_both: "fetch \<lparr>qs_rows = [soup, soup], qs_order = Some r_id, qs_distinct = True\<rparr> [soup]"
    by (simp add: run_simps)
  have one: "get_queryset cpython (get_by 1 [(''tags'', ascii ''1,2'')]) kitchen
     = Inr \<lparr>qs_rows = [soup, soup, cake], qs_order = Some r_id, qs_distinct = True\<rparr>"
    by (simp add: run_simps)
  have f_one: "fetch \<lparr>qs_rows = [soup, soup, cake], qs_order = Some r_id, qs_distinct = True\<rparr>
                 [cake, soup]"
    by (simp add: run_simps)
  have keys: "distinct (map r_id (recipe_objects kitchen))"
    by (simp add: run_simps)
  from recipe_filters [OF t i, of kitchen] keys t i both f_both one f_one show ?thesis
    by blast
qed

subsection \<open>Filter parameters that are no integer lists\<close>

text \<open>
  C3, as the code has it. For every recipe list request whose \<^verbatim>\<open>tags\<close> or
  \<^verbatim>\<open>ingredients\<close> parameter is not empty and holds a token that \<^verbatim>\<open>int\<close> rejects, the
  string-to-integer conversion \<^verbatim>\<open>params_to_int\<close> raises \<^verbatim>\<open>ValueError\<close> on that parameter
  and \<^verbatim>\<open>get_queryset\<close> ends with this exception. No response is made of it: the outcome
  is not a client error (4xx).
\<close>

theorem conversion_raises_value_error:
  assumes "malformed py (query_params rq ''tags'') \<or> malformed py (query_params rq ''ingredients'')"
  shows "(\<exists>s. (query_params rq ''tags'' = Some s \<or> query_params rq ''ingredients'' = Some s) \<and>
              params_to_int py s = Inl ValueError) \<and>
         get_queryset py rq db = Inl ValueError \<and>
         \<not> is_client_error (list_status (get_queryset py rq db))"
proof -
  from assms obtain s where
    "query_params rq ''tags'' = Some s \<or> query_params rq ''ingredients'' = Some s"
    "non_integer_token py s"
    by (auto simp: malformed_def split: option.splits)
  then have "\<exists>s. (query_params rq ''tags'' = Some s \<or> query_params rq ''ingredients'' = Some s) \<and>
              params_to_int py s = Inl ValueError"
    by (blast intro: params_to_int_raises)
  moreover have "get_queryset py rq db = Inl ValueError"
    using assms by (rule get_queryset_raises)
  ultimately show ?thesis
    by (simp add: list_status_def is_client_error_def)
qed

text \<open>A trailing comma leaves an empty token, which is no integer.\<close>

theorem conversion_raises_value_error_witness:
  "malformed cpython
     (query_params (get_by 1 [(''tags'', ascii ''2,''), (''ingredients'', ascii ''1'')]) ''tags'') \<and>
   params_to_int cpython (ascii ''2,'') = Inl ValueError \<and>
   get_queryset cpython (get_by 1 [(''tags'', ascii ''2,''), (''ingredients'', ascii ''1'')]) kitchen
     = Inl ValueError \<and>
   \<not> is_client_error
       (list_status
          (get_queryset cpython
             (get_by 1 [(''tags'', ascii ''2,''), (''ingredients'', ascii ''1'')]) kitchen))"
proof -
  let ?rq = "get_by 1 [(''tags'', ascii ''2,''), (''ingredients'', ascii ''1'')]"
  have m: "malformed cpython (query_params ?rq ''tags'')"
    by (simp add: malformed_def non_integer_token_def run_simps)
  have p: "params_to_int cpython (ascii ''2,'') = Inl ValueError"
    by (simp add: run_simps)
  from conversion_raises_value_error [OF disjI1 [OF m], of kitchen] m p show ?thesis
    by blast
qed

text \<open>
  C3, as the specification states it, fails: with \<^verbatim>\<open>tags=1,x\<close> the request ends with the
  exception, and the status the client sees for it is not in the 4xx range.
\<close>

theorem conversion_client_error_counterexample:
  "malformed cpython (query_params (get_by 1 [(''tags'', ascii ''1,x'')]) ''tags'') \<and>
   get_queryset cpython (get_by 1 [(''tags'', ascii ''1,x'')]) kitchen = Inl ValueError \<and>
   list_status (get_queryset cpython (get_by 1 [(''tags'', ascii ''1,x'')]) kitchen) = 500 \<and>
   \<not> is_client_error
       (list_status (get_queryset cpython (get_by 1 [(''tags'', ascii ''1,x'')]) kitchen))"
  by (simp add: malformed_def non_integer_token_def list_status_def is_client_error_def run_simps)

text \<open>
  C4, as the code has it. For every recipe list request whose \<^verbatim>\<open>tags\<close> or
  \<^verbatim>\<open>ingredients\<close> parameter is not empty and holds a token that is not numeric, the
  exception raised in \<^verbatim>\<open>params_to_int\<close> is caught nowhere in the views:
  \<^verbatim>\<open>get_queryset\<close> returns no queryset but ends with the \<^verbatim>\<open>ValueError\<close>, which surfaces
  as a server error (500) and not as a 400 response.
\<close>

theorem malformed_filter_unhandled:
  assumes "malformed py (query_params rq ''tags'') \<or> malformed py (query_params rq ''ingredients'')"
  shows "get_queryset py rq db = Inl ValueError \<and>
         (\<forall>qs. get_queryset py rq db \<noteq> Inr qs) \<and>
         list_status (get_queryset py rq db) = 500 \<and>
         list_status (get_queryset py rq db) \<noteq> HTTP_400_BAD_REQUEST"
  using get_queryset_raises [OF assms, of db]
  by (simp add: list_status_def HTTP_400_BAD_REQUEST_def)

text \<open>The tags are well formed here; the exception comes from the second conversion.\<close>

theorem malformed_filter_unhandled_witness:
  "malformed cpython
     (query_params (get_by 2 [(''tags'', ascii ''3''), (''ingredients'', ascii ''salt'')])
        ''ingredients'') \<and>
   get_queryset cpython (get_by 2 [(''tags'', ascii ''3''), (''ingredients'', ascii ''salt'')]) kitchen
     = Inl ValueError \<and>
   list_status
     (get_queryset cpython
        (get_by 2 [(''tags'', ascii ''3''), (''ingredients'', ascii ''salt'')]) kitchen) = 500"
proof -
  let ?rq = "get_by 2 [(''tags'', ascii ''3''), (''ingredients'', ascii ''salt'')]"
  have m: "malformed cpython (query_params ?rq ''ingredients'')"
    by (simp add: malformed_def non_integer_token_def run_simps)
  from malformed_filter_unhandled [OF disjI2 [OF m], of kitchen] m show ?thesis
    by blast
qed

text \<open>
  C4, as the specification states it, fails for the empty parameter \<^verbatim>\<open>?tags=\<close>: its one
  token is the empty string, on which \<^verbatim>\<open>int\<close> raises, but \<^verbatim>\<open>if tags:\<close> keeps the
  parameter from being converted, no exception is raised and the list is answered with
  status 200.
\<close>

theorem empty_filter_counterexample:
  "query_params (get_by 1 [(''tags'', [])]) ''tags'' = Some [] \<and>
   py_split 44 [] = [[]] \<and>
   py_int cpython [] = Inl ValueError \<and>
   non_integer_token cpython [] \<and>
   get_queryset cpython (get_by 1 [(''tags'', [])]) kitchen
     = Inr \<lparr>qs_rows = [soup, cake], qs_order = Some r_id, qs_distinct = True\<rparr> \<and>
   list_status (get_queryset cpython (get_by 1 [(''tags'', [])]) kitchen) = 200"
  by (simp add: non_integer_token_def list_status_def HTTP_200_OK_def run_simps)

subsection \<open>Uploading an image\<close>

text \<open>
  C5. For every POST to the upload-image action on an existing recipe (one that
  \<^verbatim>\<open>get_object\<close> finds): if the payload validates against the image-only serializer, the
  record is saved, that is, the database is the one the serializer's \<^verbatim>\<open>update\<close> wrote,
  and the response has status 200 and carries the representation of the updated record;
  if validation fails, the response has status 400 and carries the serializer's field
  errors.
\<close>

theorem upload_image_responses:
  assumes "get_object py rq pk db = Inr recipe"
  shows "(run_validation (serializers RecipeImageSerializer) (data rq) = Inr validated \<longrightarrow>
            upload_image py serializers rq pk db
              = (fst (update (serializers RecipeImageSerializer) recipe validated db),
                 Inr \<lparr>body = Data (to_representation (serializers RecipeImageSerializer)
                                     (snd (update (serializers RecipeImageSerializer)
                                             recipe validated db))),
                      status = 200\<rparr>)) \<and>
         (run_validation (serializers RecipeImageSerializer) (data rq) = Inl errors \<longrightarrow>
            upload_image py serializers rq pk db
              = (db, Inr \<lparr>body = Errors errors, status = 400\<rparr>))"
  using assms
  by (simp add: upload_image_def upload_image_serializer save_update HTTP_200_OK_def
      HTTP_400_BAD_REQUEST_def Let_def case_prod_beta)

text \<open>User 1 uploads a file for the soup, and then a payload without a file.\<close>

theorem upload_image_responses_witness:
  "get_object cpython (post_by 1 (Some ''new.png'')) 1 kitchen = Inr soup \<and>
   upload_image cpython (\<lambda>c. image_serializer) (post_by 1 (Some ''new.png'')) 1 kitchen
     = (kitchen\<lparr>recipe_objects := [soup\<lparr>r_rest := ''new.png''\<rparr>, cake, stew]\<rparr>,
        Inr \<lparr>body = Data (1, ''new.png''), status = 200\<rparr>) \<and>
   upload_image cpython (\<lambda>c. image_serializer) (post_by 1 None) 1 kitchen
     = (kitchen, Inr \<lparr>body = Errors [(''image'', [''No file was submitted.''])], status = 400\<rparr>)"
proof -
  have g: "get_object cpython (post_by 1 (Some ''new.png'')) 1 kitchen = Inr soup"
    by (simp add: get_object_def run_simps)
  have g': "get_object cpython (post_by 1 None) 1 kitchen = Inr soup"
    by (simp add: get_object_def run_simps)
  have v: "run_validation image_serializer (data (post_by 1 (Some ''new.png'')))
             = Inr [''image'' \<mapsto> Field ''new.png'']"
    by (simp add: image_serializer_def post_by_def)
  have v': "run_validation image_serializer (data (post_by 1 None))
             = Inl [(''image'', [''No file was submitted.''])]"
    by (simp add: image_serializer_def post_by_def)
  have u: "update image_serializer soup [''image'' \<mapsto> Field ''new.png''] kitchen
             = (kitchen\<lparr>recipe_objects := [soup\<lparr>r_rest := ''new.png''\<rparr>, cake, stew]\<rparr>,
                soup\<lparr>r_rest := ''new.png''\<rparr>)"
    by (simp add: image_serializer_def image_of_def write_back_def kitchen_def soup_def
        cake_def stew_def Let_def)
  have t: "to_representation image_serializer (soup\<lparr>r_rest := ''new.png''\<rparr>) = (1, ''new.png'')"
    by (simp add: image_serializer_def soup_def)
  from upload_image_responses [OF g, of "\<lambda>c. image_serializer" "[''image'' \<mapsto> Field ''new.png'']"]
    upload_image_responses [OF g', of "\<lambda>c. image_serializer" _ "[(''image'', [''No file was submitted.''])]"]
    g v v' u t
  show ?thesis by simp
qed

text \<open>
  C9. For every upload-image request whose payload fails validation, the database, and
  with it the targeted recipe, is left as it was; the response is the error response
  alone; and \<^verbatim>\<open>save\<close> is not called: whatever the serializer's \<^verbatim>\<open>update\<close> would do,
  the outcome is the same.
\<close>

theorem upload_image_invalid_unchanged:
  assumes "run_validation (serializers (get_serializer_class ''upload_image'')) (data rq)
             = Inl errors"
  shows "fst (upload_image py serializers rq pk db) = db \<and>
         (get_object py rq pk db = Inr recipe \<longrightarrow>
            snd (upload_image py serializers rq pk db)
              = Inr \<lparr>body = Errors errors, status = HTTP_400_BAD_REQUEST\<rparr>) \<and>
         upload_image py (\<lambda>c. (serializers c)\<lparr>update := u\<rparr>) rq pk db
           = upload_image py serializers rq pk db"
  using assms by (simp add: upload_image_def Let_def split: sum.splits)

theorem upload_image_invalid_unchanged_witness:
  "run_validation ((\<lambda>c. image_serializer) (get_serializer_class ''upload_image''))
       (data (post_by 1 None))
     = Inl [(''image'', [''No file was submitted.''])] \<and>
   fst (upload_image cpython (\<lambda>c. image_serializer) (post_by 1 None) 1 kitchen) = kitchen \<and>
   snd (upload_image cpython (\<lambda>c. image_serializer) (post_by 1 None) 1 kitchen)
     = Inr \<lparr>body = Errors [(''image'', [''No file was submitted.''])], status = 400\<rparr>"
proof -
  have v: "run_validation ((\<lambda>c. image_serializer) (get_serializer_class ''upload_image''))
       (data (post_by 1 None))
     = Inl [(''image'', [''No file was submitted.''])]"
    by (simp add: image_serializer_def post_by_def)
  have g: "get_object cpython (post_by 1 None) 1 kitchen = Inr soup"
    by (simp add: get_object_def run_simps)
  from upload_image_invalid_unchanged [OF v, of cpython 1 kitchen soup] v g show ?thesis
    by (simp add: HTTP_400_BAD_REQUEST_def)
qed

subsection \<open>Creating a recipe\<close>

text \<open>
  C6. For every recipe create request, \<^verbatim>\<open>perform_create\<close> has the serializer create the
  recipe from the validated fields with the entry \<^verbatim>\<open>user\<close> set to the requesting user;
  a \<^verbatim>\<open>user\<close> entry \<open>x\<close> coming from the payload changes nothing; so with a serializer
  whose \<^verbatim>\<open>create\<close> stores the \<^verbatim>\<open>user\<close> entry it is given, the new recipe belongs to the
  requesting user, and the client cannot set or override ownership.
\<close>

theorem perform_create_owner:
  "perform_create rq serializer validated_data db
     = create serializer (validated_data(''user'' \<mapsto> UserRef (user rq))) db \<and>
   perform_create rq serializer (validated_data(''user'' \<mapsto> x)) db
     = perform_create rq serializer validated_data db \<and>
   ((\<forall>entries d u. entries ''user'' = Some (UserRef u) \<longrightarrow>
        r_user (snd (create serializer entries d)) = u) \<longrightarrow>
    r_user (snd (perform_create rq serializer validated_data db)) = user rq)"
  by (simp add: perform_create_def save_def)

text \<open>User 2 posts a payload that names user 1 as the owner: the new recipe is user 2's.\<close>

theorem perform_create_owner_witness:
  "\<not> (\<exists>entries d u. entries ''user'' = Some (UserRef u) \<and>
         r_user (snd (create image_serializer entries d)) \<noteq> u) \<and>
   perform_create (post_by 2 None) image_serializer
       [''user'' \<mapsto> UserRef 1, ''image'' \<mapsto> Field ''pie.png''] kitchen
     = (kitchen\<lparr>recipe_objects :=
                  [soup, cake, stew,
                   \<lparr>r_id = 4, r_user = 2, r_tags = [], r_ingredients = [],
                      r_rest = ''pie.png''\<rparr>]\<rparr>,
        \<lparr>r_id = 4, r_user = 2, r_tags = [], r_ingredients = [], r_rest = ''pie.png''\<rparr>) \<and>
   r_user (snd (perform_create (post_by 2 None) image_serializer
                  [''user'' \<mapsto> UserRef 1, ''image'' \<mapsto> Field ''pie.png''] kitchen))
     = user (post_by 2 None)"
proof -
  have h: "\<forall>entries d u. entries ''user'' = Some (UserRef u) \<longrightarrow>
        r_user (snd (create image_serializer entries d)) = u"
    by (simp add: image_serializer_def owner_of_def Let_def)
  have c: "perform_create (post_by 2 None) image_serializer
       [''user'' \<mapsto> UserRef 1, ''image'' \<mapsto> Field ''pie.png''] kitchen
     = (kitchen\<lparr>recipe_objects :=
                  [soup, cake, stew,
                   \<lparr>r_id = 4, r_user = 2, r_tags = [], r_ingredients = [],
                      r_rest = ''pie.png''\<rparr>]\<rparr>,
        \<lparr>r_id = 4, r_user = 2, r_tags = [], r_ingredients = [], r_rest = ''pie.png''\<rparr>)"
    by (simp add: perform_create_def save_def image_serializer_def owner_of_def image_of_def
        Let_def post_by_def kitchen_def)
  from perform_create_owner [of "post_by 2 None" image_serializer
      "[''user'' \<mapsto> UserRef 1, ''image'' \<mapsto> Field ''pie.png'']" kitchen] h c
  show ?thesis by (simp add: post_by_def)
qed

subsection \<open>Listing tags and ingredients\<close>

text \<open>
  C7. For every tag or ingredient list request: when \<^verbatim>\<open>assigned_only\<close> is 1, the request
  is answered and every answer holds exactly the requesting user's rows that at least one
  recipe references; when it is 0 or absent, every answer holds all of the requesting
  user's rows.
\<close>

theorem assigned_only_listing:
  "(query_params rq ''assigned_only'' = Some (ascii ''1'') \<longrightarrow>
      (\<exists>qs. attr_get_queryset py self rq db = Inr qs \<and> (\<exists>out. fetch qs out) \<and>
         (\<forall>out. fetch qs out \<longrightarrow>
            set out = {a \<in> set (qs_rows (queryset self db)).
                         a_user a = user rq \<and> referenced self db a}))) \<and>
   (query_params rq ''assigned_only'' = Some (ascii ''0'') \<or>
    query_params rq ''assigned_only'' = None \<longrightarrow>
      (\<exists>qs. attr_get_queryset py self rq db = Inr qs \<and> (\<exists>out. fetch qs out) \<and>
         (\<forall>out. fetch qs out \<longrightarrow>
            set out = {a \<in> set (qs_rows (queryset self db)). a_user a = user rq})))"
proof (intro conjI impI)
  assume "query_params rq ''assigned_only'' = Some (ascii ''1'')"
  then have "assigned_only py rq = Inr True"
    by (simp add: assigned_only_def py_int_1 py_bool_def)
  then have "attr_get_queryset py self rq db
      = Inr (distinct_rows (order_by_desc a_name (filter_rows (\<lambda>a. a_user a = user rq)
               (filter_recipe_notnull (recipe_links self) (recipe_objects db)
                  (queryset self db)))))"
    by (simp add: attr_get_queryset_def)
  then show "\<exists>qs. attr_get_queryset py self rq db = Inr qs \<and> (\<exists>out. fetch qs out) \<and>
         (\<forall>out. fetch qs out \<longrightarrow>
            set out = {a \<in> set (qs_rows (queryset self db)).
                         a_user a = user rq \<and> referenced self db a})"
    using rows_assigned by (rule every_answer)
next
  assume "query_params rq ''assigned_only'' = Some (ascii ''0'') \<or>
          query_params rq ''assigned_only'' = None"
  then have "assigned_only py rq = Inr False"
    by (auto simp: assigned_only_def py_int_0 py_bool_def)
  then have "attr_get_queryset py self rq db
      = Inr (distinct_rows (order_by_desc a_name (filter_rows (\<lambda>a. a_user a = user rq)
               (queryset self db))))"
    by (simp add: attr_get_queryset_def)
  then show "\<exists>qs. attr_get_queryset py self rq db = Inr qs \<and> (\<exists>out. fetch qs out) \<and>
         (\<forall>out. fetch qs out \<longrightarrow>
            set out = {a \<in> set (qs_rows (queryset self db)). a_user a = user rq})"
    using rows_all by (rule every_answer)
qed

text \<open>Of the three tags of user 1, no recipe carries the tag 4.\<close>

theorem assigned_only_listing_witness:
  "attr_get_queryset cpython TagViewSet (get_by 1 [(''assigned_only'', ascii ''1'')]) kitchen
     = Inr \<lparr>qs_rows = [vegan, dinner, dinner], qs_order = Some a_name, qs_distinct = True\<rparr> \<and>
   fetch \<lparr>qs_rows = [vegan, dinner, dinner], qs_order = Some a_name, qs_distinct = True\<rparr>
     [vegan, dinner] \<and>
   referenced TagViewSet kitchen vegan \<and> referenced TagViewSet kitchen dinner \<and>
   \<not> referenced TagViewSet kitchen unused \<and>
   attr_get_queryset cpython TagViewSet (get_by 1 [(''assigned_only'', ascii ''0'')]) kitchen
     = Inr \<lparr>qs_rows = [vegan, dinner, unused], qs_order = Some a_name, qs_distinct = True\<rparr> \<and>
   fetch \<lparr>qs_rows = [vegan, dinner, unused], qs_order = Some a_name, qs_distinct = True\<rparr>
     [vegan, unused, dinner] \<and>
   attr_get_queryset cpython IngredientViewSet (get_by 1 []) kitchen
     = Inr \<lparr>qs_rows = [salt], qs_order = Some a_name, qs_distinct = True\<rparr> \<and>
   (\<exists>qs. attr_get_queryset cpython TagViewSet (get_by 1 [(''assigned_only'', ascii ''1'')]) kitchen
            = Inr qs \<and>
      (\<exists>out. fetch qs out) \<and>
      (\<forall>out. fetch qs out \<longrightarrow>
         set out = {a \<in> set (qs_rows (queryset TagViewSet kitchen)).
                      a_user a = user (get_by 1 [(''assigned_only'', ascii ''1'')]) \<and>
                      referenced TagViewSet kitchen a}))"
proof -
  have q: "query_params (get_by 1 [(''assigned_only'', ascii ''1'')]) ''assigned_only''
             = Some (ascii ''1'')"
    by (simp add: get_by_def)
  have a: "attr_get_queryset cpython TagViewSet (get_by 1 [(''assigned_only'', ascii ''1'')]) kitchen
     = Inr \<lparr>qs_rows = [vegan, dinner, dinner], qs_order = Some a_name, qs_distinct = True\<rparr>"
    by (simp add: run_simps)
  have fa: "fetch \<lparr>qs_rows = [vegan, dinner, dinner], qs_order = Some a_name, qs_distinct = True\<rparr>
     [vegan, dinner]"
    by (simp add: run_simps)
  have b: "attr_get_queryset cpython TagViewSet (get_by 1 [(''assigned_only'', ascii ''0'')]) kitchen
     = Inr \<lparr>qs_rows = [vegan, dinner, unused], qs_order = Some a_name, qs_distinct = True\<rparr>"
    by (simp add: run_simps)
  have fb: "fetch \<lparr>qs_rows = [vegan, dinner, unused], qs_order = Some a_name, qs_distinct = True\<rparr>
     [vegan, unused, dinner]"
    by (simp add: run_simps)
  have c: "attr_get_queryset cpython IngredientViewSet (get_by 1 []) kitchen
     = Inr \<lparr>qs_rows = [salt], qs_order = Some a_name, qs_distinct = True\<rparr>"
    by (simp add: run_simps)
  have r: "referenced TagViewSet kitchen vegan" "referenced TagViewSet kitchen dinner"
     "\<not> referenced TagViewSet kitchen unused"
    by (simp_all add: referenced_def run_simps)
  from assigned_only_listing
      [of "get_by 1 [(''assigned_only'', ascii ''1'')]" cpython TagViewSet kitchen]
    q a fa b fb c r
  show ?thesis by blast
qed

text \<open>
  C10. The \<^verbatim>\<open>assigned_only\<close> parameter is read as \<^verbatim>\<open>bool(int(value))\<close> with default 0.
  A string \<open>s\<close> that \<^verbatim>\<open>int\<close> reads as a nonzero integer switches the assigned-only
  filter on, and \<^verbatim>\<open>int\<close> reads the decimal numeral of every integer \<open>k\<close> (such as
  \<^verbatim>\<open>2\<close> or \<^verbatim>\<open>-1\<close>, not only \<^verbatim>\<open>1\<close>) short of the interpreter's digit limit; \<^verbatim>\<open>0\<close> or
  a missing parameter leaves the filter off; a value that is no integer (such as
  \<^verbatim>\<open>true\<close> or the empty string) makes \<^verbatim>\<open>get_queryset\<close> end with a \<^verbatim>\<open>ValueError\<close> that
  nothing handles, a 500 and not a 400. The flag decides between the rows joined with
  the recipe links and all rows.
\<close>

theorem assigned_only_parsing:
  "(query_params rq ''assigned_only'' = Some s \<and> py_int py s = Inr n \<and> n \<noteq> 0 \<longrightarrow>
      assigned_only py rq = Inr True) \<and>
   (query_params rq ''assigned_only'' = Some (numeral_of k) \<and> k \<noteq> 0 \<and>
    \<not> exceeds_limit py (length (decimal_digits (nat \<bar>k\<bar>))) \<longrightarrow>
      py_int py (numeral_of k) = Inr k \<and> assigned_only py rq = Inr True) \<and>
   (query_params rq ''assigned_only'' = None \<or>
    query_params rq ''assigned_only'' = Some s \<and> py_int py s = Inr 0 \<longrightarrow>
      assigned_only py rq = Inr False) \<and>
   (query_params rq ''assigned_only'' = Some s \<and> py_int py s = Inl e \<longrightarrow>
      assigned_only py rq = Inl ValueError \<and>
      attr_get_queryset py self rq db = Inl ValueError \<and>
      list_status (attr_get_queryset py self rq db) = 500 \<and>
      list_status (attr_get_queryset py self rq db) \<noteq> HTTP_400_BAD_REQUEST) \<and>
   (assigned_only py rq = Inr flag \<longrightarrow>
      attr_get_queryset py self rq db
        = Inr (distinct_rows (order_by_desc a_name (filter_rows (\<lambda>a. a_user a = user rq)
                 (if flag
                  then filter_recipe_notnull (recipe_links self) (recipe_objects db)
                         (queryset self db)
                  else queryset self db))))) \<and>
   py_int py (ascii ''1'') = Inr 1 \<and> py_int py (ascii ''2'') = Inr 2 \<and>
   py_int py (ascii ''-1'') = Inr (- 1) \<and> py_int py (ascii ''0'') = Inr 0 \<and>
   py_int py (ascii ''true'') = Inl ValueError \<and> py_int py [] = Inl ValueError"
proof -
  have on: "assigned_only py rq = Inr True"
    if "query_params rq ''assigned_only'' = Some s \<and> py_int py s = Inr n \<and> n \<noteq> 0"
    using that by (simp add: assigned_only_def py_bool_def)
  have numerals: "py_int py (numeral_of k) = Inr k \<and> assigned_only py rq = Inr True"
    if "query_params rq ''assigned_only'' = Some (numeral_of k) \<and> k \<noteq> 0 \<and>
        \<not> exceeds_limit py (length (decimal_digits (nat \<bar>k\<bar>)))"
  proof -
    from that have "py_int py (numeral_of k) = Inr k"
      by (simp add: py_int_numeral_of)
    with that show ?thesis
      by (simp add: assigned_only_def py_bool_def)
  qed
  have off: "assigned_only py rq = Inr False"
    if "query_params rq ''assigned_only'' = None \<or>
        query_params rq ''assigned_only'' = Some s \<and> py_int py s = Inr 0"
    using that by (auto simp: assigned_only_def py_bool_def)
  have raises: "assigned_only py rq = Inl ValueError \<and>
      attr_get_queryset py self rq db = Inl ValueError \<and>
      list_status (attr_get_queryset py self rq db) = 500 \<and>
      list_status (attr_get_queryset py self rq db) \<noteq> HTTP_400_BAD_REQUEST"
    if "query_params rq ''assigned_only'' = Some s \<and> py_int py s = Inl e"
  proof -
    from that have "e = ValueError" by (blast dest: py_int_error)
    with that show ?thesis
      by (simp add: assigned_only_def attr_get_queryset_def list_status_def
          HTTP_400_BAD_REQUEST_def)
  qed
  have literals: "py_int py (ascii ''1'') = Inr 1" "py_int py (ascii ''2'') = Inr 2"
    "py_int py (ascii ''-1'') = Inr (- 1)" "py_int py (ascii ''0'') = Inr 0"
    "py_int py (ascii ''true'') = Inl ValueError" "py_int py [] = Inl ValueError"
    by (simp_all add: run_simps)
  show ?thesis
    using on numerals off raises literals attr_get_queryset_flag [of py rq flag self db]
    by blast
qed

text \<open>
  On CPython: \<^verbatim>\<open>2\<close>, \<^verbatim>\<open>-1\<close> and \<^verbatim>\<open>37\<close> switch the filter on, \<^verbatim>\<open>true\<close> and the empty
  string raise.
\<close>

theorem assigned_only_parsing_witness:
  "numeral_of 37 = ascii ''37'' \<and> numeral_of (- 1) = ascii ''-1'' \<and>
   \<not> exceeds_limit cpython (length (decimal_digits (nat \<bar>37\<bar>))) \<and>
   assigned_only cpython (get_by 1 [(''assigned_only'', numeral_of 37)]) = Inr True \<and>
   assigned_only cpython (get_by 1 [(''assigned_only'', ascii ''2'')]) = Inr True \<and>
   assigned_only cpython (get_by 1 [(''assigned_only'', ascii ''-1'')]) = Inr True \<and>
   assigned_only cpython (get_by 1 [(''assigned_only'', ascii ''0'')]) = Inr False \<and>
   assigned_only cpython (get_by 1 []) = Inr False \<and>
   assigned_only cpython (get_by 1 [(''assigned_only'', ascii ''true'')]) = Inl ValueError \<and>
   assigned_only cpython (get_by 1 [(''assigned_only'', [])]) = Inl ValueError \<and>
   attr_get_queryset cpython TagViewSet (get_by 1 [(''assigned_only'', ascii ''true'')]) kitchen
     = Inl ValueError \<and>
   attr_get_queryset cpython TagViewSet (get_by 1 [(''assigned_only'', ascii ''-1'')]) kitchen
     = Inr \<lparr>qs_rows = [vegan, dinner, dinner], qs_order = Some a_name, qs_distinct = True\<rparr>"
proof -
  have n: "numeral_of 37 = ascii ''37''" "numeral_of (- 1) = ascii ''-1''"
    by (simp_all add: numeral_of_def decimal_digits.simps ascii_def)
  have l: "\<not> exceeds_limit cpython (length (decimal_digits (nat \<bar>37\<bar>)))"
    by (simp add: exceeds_limit_def decimal_digits.simps)
  have q: "query_params (get_by 1 [(''assigned_only'', numeral_of 37)]) ''assigned_only''
             = Some (numeral_of 37)"
    by (simp add: get_by_def)
  have big: "assigned_only cpython (get_by 1 [(''assigned_only'', numeral_of 37)]) = Inr True"
    using assigned_only_parsing [of "get_by 1 [(''assigned_only'', numeral_of 37)]" "[]" cpython 0
        37 ValueError TagViewSet kitchen False] q l
    by simp
  have rest:
    "assigned_only cpython (get_by 1 [(''assigned_only'', ascii ''2'')]) = Inr True"
    "assigned_only cpython (get_by 1 [(''assigned_only'', ascii ''-1'')]) = Inr True"
    "assigned_only cpython (get_by 1 [(''assigned_only'', ascii ''0'')]) = Inr False"
    "assigned_only cpython (get_by 1 []) = Inr False"
    "assigned_only cpython (get_by 1 [(''assigned_only'', ascii ''true'')]) = Inl ValueError"
    "assigned_only cpython (get_by 1 [(''assigned_only'', [])]) = Inl ValueError"
    "attr_get_queryset cpython TagViewSet (get_by 1 [(''assigned_only'', ascii ''true'')]) kitchen
       = Inl ValueError"
    "attr_get_queryset cpython TagViewSet (get_by 1 [(''assigned_only'', ascii ''-1'')]) kitchen
       = Inr \<lparr>qs_rows = [vegan, dinner, dinner], qs_order = Some a_name, qs_distinct = True\<rparr>"
    by (simp_all add: run_simps)
  from n l big rest show ?thesis by simp
qed

subsection \<open>The order of the lists\<close>

text \<open>
  C8, as the code has it. For every list request every answer is ordered and free of
  duplicates: a recipe list is sorted by id, descending, and a tag or ingredient list by
  name, descending, each row once. With unique primary keys the recipe ids fall strictly
  and there is one possible answer only. For tags and ingredients there is one possible
  answer only when no two of the listed rows have the same name; the order among rows of
  the same name is not fixed.
\<close>

theorem listing_order:
  "(get_queryset py rq db = Inr qs \<and> fetch qs out \<longrightarrow>
      sorted_wrt (\<ge>) (map r_id out) \<and> distinct out \<and>
      (distinct (map r_id (recipe_objects db)) \<longrightarrow>
         sorted_wrt (>) (map r_id out) \<and> (\<forall>other. fetch qs other \<longrightarrow> other = out))) \<and>
   (attr_get_queryset py self rq db = Inr qs' \<and> fetch qs' out' \<longrightarrow>
      sorted_wrt (\<ge>) (map a_name out') \<and> distinct out' \<and>
      (distinct (map a_name out') \<longrightarrow> (\<forall>other. fetch qs' other \<longrightarrow> other = out')))"
proof (intro conjI impI allI; (elim conjE)?)
  assume res: "get_queryset py rq db = Inr qs" and f: "fetch qs out"
  note shape = get_queryset_shape [OF res]
  show desc: "sorted_wrt (\<ge>) (map r_id out)"
    using f shape(1) by (rule fetch_sorted)
  show once: "distinct out"
    using f shape(2) by (rule fetch_distinct)
  assume keys: "distinct (map r_id (recipe_objects db))"
  have "set out \<subseteq> set (recipe_objects db)"
    using fetch_set [OF f] shape(3) by blast
  with once have ids: "distinct (map r_id out)"
    using keys by (rule distinct_ids)
  with desc show "sorted_wrt (>) (map r_id out)"
    by (rule desc_distinct_strict)
  fix other assume f': "fetch qs other"
  have "inj_on r_id (set (qs_rows qs))"
    using ids fetch_set [OF f] by (simp add: distinct_map)
  with f' f shape(1,2) show "other = out"
    by (rule fetch_unique)
next
  assume res: "attr_get_queryset py self rq db = Inr qs'" and f: "fetch qs' out'"
  note shape = attr_get_queryset_shape [OF res]
  show "sorted_wrt (\<ge>) (map a_name out')"
    using f shape(1) by (rule fetch_sorted)
  show "distinct out'"
    using f shape(2) by (rule fetch_distinct)
  fix other assume names: "distinct (map a_name out')" and f': "fetch qs' other"
  have "inj_on a_name (set (qs_rows qs'))"
    using names fetch_set [OF f] by (simp add: distinct_map)
  with f' f shape(1,2) show "other = out'"
    by (rule fetch_unique)
qed

text \<open>
  User 1 lists recipes by tags and, with the same parameters, all tags: one possible
  answer each, the names being different.
\<close>

theorem listing_order_witness:
  "get_queryset cpython (get_by 1 [(''tags'', ascii ''2,1'')]) kitchen
     = Inr \<lparr>qs_rows = [soup, soup, cake], qs_order = Some r_id, qs_distinct = True\<rparr> \<and>
   fetch \<lparr>qs_rows = [soup, soup, cake], qs_order = Some r_id, qs_distinct = True\<rparr> [cake, soup] \<and>
   \<not> fetch \<lparr>qs_rows = [soup, soup, cake], qs_order = Some r_id, qs_distinct = True\<rparr> [soup, cake] \<and>
   map r_id [cake, soup] = [2, 1] \<and>
   sorted_wrt (>) (map r_id [cake, soup]) \<and>
   attr_get_queryset cpython TagViewSet (get_by 1 [(''tags'', ascii ''2,1'')]) kitchen
     = Inr \<lparr>qs_rows = [vegan, dinner, unused], qs_order = Some a_name, qs_distinct = True\<rparr> \<and>
   fetch \<lparr>qs_rows = [vegan, dinner, unused], qs_order = Some a_name, qs_distinct = True\<rparr>
     [vegan, unused, dinner] \<and>
   map a_name [vegan, unused, dinner] = [''vegan'', ''unused'', ''dinner''] \<and>
   sorted_wrt (\<ge>) (map a_name [vegan, unused, dinner]) \<and>
   \<not> (\<exists>other. fetch \<lparr>qs_rows = [vegan, dinner, unused], qs_order = Some a_name,
                       qs_distinct = True\<rparr> other \<and>
          other \<noteq> [vegan, unused, dinner])"
proof -
  have a: "get_queryset cpython (get_by 1 [(''tags'', ascii ''2,1'')]) kitchen
     = Inr \<lparr>qs_rows = [soup, soup, cake], qs_order = Some r_id, qs_distinct = True\<rparr>"
    by (simp add: run_simps)
  have fa: "fetch \<lparr>qs_rows = [soup, soup, cake], qs_order = Some r_id, qs_distinct = True\<rparr>
              [cake, soup]"
       "\<not> fetch \<lparr>qs_rows = [soup, soup, cake], qs_order = Some r_id, qs_distinct = True\<rparr>
              [soup, cake]"
    by (simp_all add: run_simps)
  have b: "attr_get_queryset cpython TagViewSet (get_by 1 [(''tags'', ascii ''2,1'')]) kitchen
     = Inr \<lparr>qs_rows = [vegan, dinner, unused], qs_order = Some a_name, qs_distinct = True\<rparr>"
    by (simp add: run_simps)
  have fb: "fetch \<lparr>qs_rows = [vegan, dinner, unused], qs_order = Some a_name, qs_distinct = True\<rparr>
              [vegan, unused, dinner]"
    by (simp add: run_simps)
  have k: "distinct (map r_id (recipe_objects kitchen))"
    by (simp add: run_simps)
  have i: "map r_id [cake, soup] = [2, 1]"
    by (simp add: run_simps)
  have n: "map a_name [vegan, unused, dinner] = [''vegan'', ''unused'', ''dinner'']"
    by (simp add: run_simps)
  have d: "distinct (map a_name [vegan, unused, dinner])"
    by (simp add: run_simps)
  have s: "sorted_wrt (\<ge>) (map a_name [vegan, unused, dinner])"
    by (simp add: run_simps)
  note th = listing_order [of cpython "get_by 1 [(''tags'', ascii ''2,1'')]" kitchen
      "\<lparr>qs_rows = [soup, soup, cake], qs_order = Some r_id, qs_distinct = True\<rparr>" "[cake, soup]"
      TagViewSet
      "\<lparr>qs_rows = [vegan, dinner, unused], qs_order = Some a_name, qs_distinct = True\<rparr>"
      "[vegan, unused, dinner]"]
  have r: "sorted_wrt (>) (map r_id [cake, soup])"
    using th a fa(1) k by blast
  have u: "\<not> (\<exists>other. fetch \<lparr>qs_rows = [vegan, dinner, unused], qs_order = Some a_name,
                       qs_distinct = True\<rparr> other \<and>
          other \<noteq> [vegan, unused, dinner])"
    using th b fb d by blast
  show ?thesis
    using a fa b fb i n s r u by (intro conjI)
qed

text \<open>
  C8, as the specification states it, fails for tags and ingredients: user 1 has two tags
  named \<^verbatim>\<open>nut\<close>, and the database may list them in either order.
\<close>

theorem equal_names_counterexample:
  "attr_get_queryset cpython TagViewSet (get_by 1 []) pantry
     = Inr \<lparr>qs_rows = [nut_a, nut_b], qs_order = Some a_name, qs_distinct = True\<rparr> \<and>
   fetch \<lparr>qs_rows = [nut_a, nut_b], qs_order = Some a_name, qs_distinct = True\<rparr> [nut_a, nut_b] \<and>
   fetch \<lparr>qs_rows = [nut_a, nut_b], qs_order = Some a_name, qs_distinct = True\<rparr> [nut_b, nut_a] \<and>
   [nut_a, nut_b] \<noteq> [nut_b, nut_a]"
  by (simp add: run_simps)

end
